theory Spec2Isabelle
  imports Main
begin

section \<open>The relational schema\<close>

text \<open>
  The migration declares the tables \<open>profiles\<close> and \<open>tasks\<close>. A table with a key is a
  finite map from the key to the remaining columns: \<open>profiles\<close> is keyed by
  \<open>user_id\<close> (\<open>UUID NOT NULL UNIQUE\<close>, the column every policy and the ledger look
  rows up by), \<open>tasks\<close> by \<open>id\<close> (\<open>PRIMARY KEY\<close>). A column with a \<open>CHECK ... IN\<close>
  constraint is a datatype of the admitted values, a nullable column an option, an
  \<open>INTEGER\<close> column an integer whose arithmetic is range-checked (\<open>int4\<close> below). The
  timestamps \<open>created_at\<close>/\<open>updated_at\<close> and the surrogate \<open>profiles.id\<close> are written
  by defaults and by the \<open>update_updated_at_column\<close> trigger only and read by nothing
  modelled here; they are left out.
\<close>

type_synonym uuid = string
type_synonym timestamptz = string

datatype role = Intern | Employee | Admin

datatype task_status = Pending | In_progress | Completed | Overdue

datatype priority = Low | Medium | High

record profile =
  email :: string
  full_name :: "string option"
  role :: role
  department :: "string option"
  points :: int

record task =
  title :: string
  description :: "string option"
  status :: task_status
  priority :: priority
  task_points :: int
  due_date :: "timestamptz option"
  assignee_id :: "uuid option"
  created_by :: "uuid option"
  completed_at :: "timestamptz option"

record db =
  profiles :: "uuid \<rightharpoonup> profile"
  tasks :: "uuid \<rightharpoonup> task"

datatype error =
    Rls_violation
  | Check_violation
  | Unique_violation
  | Foreign_key_violation
  | Integer_out_of_range

text \<open>
  Who runs a statement. A request of the web client runs as the signed-in user, so
  \<open>auth.uid()\<close> is that user's id and every row-level security policy applies. The
  table owner and roles with \<open>BYPASSRLS\<close> are exempt from row-level security: no
  policy is evaluated for them.
\<close>

datatype session = Authenticated uuid | Rls_exempt

subsection \<open>Row-level security policies\<close>

text \<open>
  \<open>EXISTS (SELECT 1 FROM public.profiles WHERE user_id = auth.uid() AND role IN
  ('admin', 'employee'))\<close>, the expression shared by the task policies.
\<close>

definition admin_or_employee :: "db \<Rightarrow> uuid \<Rightarrow> bool" where
  "admin_or_employee d uid =
     (case profiles d uid of
        None \<Rightarrow> False
      | Some p \<Rightarrow> role p = Admin \<or> role p = Employee)"

text \<open>Policy "Users can view tasks assigned to them or created by them" (\<open>FOR SELECT\<close>).\<close>

definition tasks_select_using :: "db \<Rightarrow> session \<Rightarrow> task \<Rightarrow> bool" where
  "tasks_select_using d sess t =
     (case sess of
        Rls_exempt \<Rightarrow> True
      | Authenticated u \<Rightarrow>
          assignee_id t = Some u \<or> created_by t = Some u \<or> admin_or_employee d u)"

text \<open>Policy "Employees and admins can create tasks" (\<open>FOR INSERT WITH CHECK\<close>).\<close>

definition tasks_insert_check :: "db \<Rightarrow> session \<Rightarrow> bool" where
  "tasks_insert_check d sess =
     (case sess of
        Rls_exempt \<Rightarrow> True
      | Authenticated u \<Rightarrow> admin_or_employee d u)"

text \<open>Policy "Employees and admins can update tasks" (\<open>FOR UPDATE USING\<close>).\<close>

definition tasks_update_using :: "db \<Rightarrow> session \<Rightarrow> bool" where
  "tasks_update_using d sess =
     (case sess of
        Rls_exempt \<Rightarrow> True
      | Authenticated u \<Rightarrow> admin_or_employee d u)"

text \<open>
  Policy "Users can update their own profile" (\<open>FOR UPDATE USING (auth.uid() =
  user_id)\<close>), for the profile row with the given \<open>user_id\<close>.
\<close>

definition profiles_update_using :: "session \<Rightarrow> uuid \<Rightarrow> bool" where
  "profiles_update_using sess target =
     (case sess of
        Rls_exempt \<Rightarrow> True
      | Authenticated u \<Rightarrow> u = target)"

subsection \<open>The points ledger: trigger \<open>update_user_points\<close>\<close>

text \<open>
  PostgreSQL raises \<open>integer out of range\<close> when the result of \<open>INTEGER\<close> arithmetic
  leaves the 32-bit signed range; the statement and its triggers are then rolled back.
\<close>

definition int4 :: "int \<Rightarrow> error + int" where
  "int4 x = (if - 2147483648 \<le> x \<and> x \<le> 2147483647 then Inr x else Inl Integer_out_of_range)"

text \<open>
  \<open>UPDATE public.profiles SET points = expr WHERE user_id = target\<close>, as run inside the
  trigger function. The function is not declared \<open>SECURITY DEFINER\<close>, so the statement
  runs with the rights of the session whose \<open>UPDATE\<close> of \<open>tasks\<close> fired the trigger,
  and \<open>profiles\<close> has row-level security enabled: a row that fails the \<open>UPDATE\<close> policy
  of \<open>profiles\<close> is skipped without an error. \<open>user_id = NULL\<close> matches no row.
\<close>

definition update_profile_points ::
  "session \<Rightarrow> uuid option \<Rightarrow> (int \<Rightarrow> error + int) \<Rightarrow> (uuid \<rightharpoonup> profile)
     \<Rightarrow> error + (uuid \<rightharpoonup> profile)" where
  "update_profile_points sess target expr ps =
     (case target of
        None \<Rightarrow> Inr ps
      | Some a \<Rightarrow>
          (case ps a of
             None \<Rightarrow> Inr ps
           | Some p \<Rightarrow>
               if profiles_update_using sess a
               then (case expr (points p) of
                       Inl e \<Rightarrow> Inl e
                     | Inr v \<Rightarrow> Inr (ps(a \<mapsto> p\<lparr>points := v\<rparr>)))
               else Inr ps))"

text \<open>\<open>points + points_to_add\<close> and \<open>GREATEST(0, points - points_to_subtract)\<close>.\<close>

definition add_points :: "int \<Rightarrow> int \<Rightarrow> error + int" where
  "add_points points_to_add pts = int4 (pts + points_to_add)"

definition subtract_points :: "int \<Rightarrow> int \<Rightarrow> error + int" where
  "subtract_points points_to_subtract pts =
     (case int4 (pts - points_to_subtract) of
        Inl e \<Rightarrow> Inl e
      | Inr v \<Rightarrow> Inr (max 0 v))"

text \<open>
  \<open>calculate_user_points()\<close>, the row-level \<open>AFTER UPDATE\<close> trigger function of
  \<open>tasks\<close>, on the old and the new row.
\<close>

definition calculate_user_points ::
  "session \<Rightarrow> task \<Rightarrow> task \<Rightarrow> (uuid \<rightharpoonup> profile) \<Rightarrow> error + (uuid \<rightharpoonup> profile)" where
  "calculate_user_points sess OLD NEW ps =
     (let points_to_add =
            (if status NEW = Completed \<and> status OLD \<noteq> Completed then task_points NEW else 0);
          points_to_subtract =
            (if status NEW = Overdue \<and> status OLD \<noteq> Overdue then 5 else (0::int))
      in case (if points_to_add > 0
               then update_profile_points sess (assignee_id NEW) (add_points points_to_add) ps
               else Inr ps) of
           Inl e \<Rightarrow> Inl e
         | Inr ps1 \<Rightarrow>
             if points_to_subtract > 0
             then update_profile_points sess (assignee_id NEW)
                    (subtract_points points_to_subtract) ps1
             else Inr ps1)"

subsection \<open>Statements on \<open>tasks\<close>\<close>

text \<open>The \<open>CHECK (status IN (...))\<close> constraint, on the text a client sends.\<close>

definition status_of_text :: "string \<Rightarrow> task_status option" where
  "status_of_text s =
     (if s = ''pending'' then Some Pending
      else if s = ''in_progress'' then Some In_progress
      else if s = ''completed'' then Some Completed
      else if s = ''overdue'' then Some Overdue
      else None)"

text \<open>
  \<open>UPDATE tasks SET status = s, completed_at = c WHERE id = tid\<close>, the one statement
  the client sends against \<open>tasks\<close>. The row is touched when it passes the \<open>SELECT\<close>
  policy (the \<open>WHERE\<close> clause reads it) and the \<open>UPDATE\<close> policy; a row that does
  not is skipped and the statement succeeds on zero rows. A touched row is checked
  against the constraint, written, and the ledger trigger runs on it. An error undoes
  the statement: the caller keeps the database it had.
\<close>

definition update_task_status ::
  "db \<Rightarrow> session \<Rightarrow> uuid \<Rightarrow> string \<Rightarrow> timestamptz option \<Rightarrow> error + db" where
  "update_task_status d sess tid s c =
     (case tasks d tid of
        None \<Rightarrow> Inr d
      | Some OLD \<Rightarrow>
          if tasks_select_using d sess OLD \<and> tasks_update_using d sess
          then (case status_of_text s of
                  None \<Rightarrow> Inl Check_violation
                | Some st \<Rightarrow>
                    (let NEW = OLD\<lparr>status := st, completed_at := c\<rparr>
                     in case calculate_user_points sess OLD NEW (profiles d) of
                          Inl e \<Rightarrow> Inl e
                        | Inr ps \<Rightarrow> Inr (d\<lparr>profiles := ps, tasks := (tasks d)(tid \<mapsto> NEW)\<rparr>)))
          else Inr d)"

text \<open>
  \<open>INSERT INTO tasks\<close> of one row under a fresh id. The row is of the table's type:
  a payload the column types refuse (an integer outside \<open>INTEGER\<close>, a text that is no
  timestamp) fails when the statement is read and is no argument here. The \<open>WITH
  CHECK\<close> policy is
  evaluated before the constraints; the key and the two references to
  \<open>profiles(user_id)\<close> follow. No trigger of the migration fires on \<open>INSERT\<close>:
  \<open>update_user_points\<close> is \<open>AFTER UPDATE\<close>, \<open>update_tasks_updated_at\<close> is
  \<open>BEFORE UPDATE\<close>.
\<close>

definition references_profile :: "db \<Rightarrow> uuid option \<Rightarrow> bool" where
  "references_profile d r =
     (case r of None \<Rightarrow> True | Some u \<Rightarrow> (case profiles d u of None \<Rightarrow> False | Some p \<Rightarrow> True))"

definition insert_task :: "db \<Rightarrow> session \<Rightarrow> uuid \<Rightarrow> task \<Rightarrow> error + db" where
  "insert_task d sess new_id row =
     (if \<not> tasks_insert_check d sess then Inl Rls_violation
      else if (case tasks d new_id of None \<Rightarrow> False | Some t \<Rightarrow> True) then Inl Unique_violation
      else if \<not> (references_profile d (assignee_id row) \<and> references_profile d (created_by row))
      then Inl Foreign_key_violation
      else Inr (d\<lparr>tasks := (tasks d)(new_id \<mapsto> row)\<rparr>))"

section \<open>The client\<close>

subsection \<open>\<open>updateTaskStatus\<close> of the intern dashboard\<close>

text \<open>
  The function sends the update, with \<open>completed_at\<close> the current time exactly for the
  status \<open>'completed'\<close>, and shows a toast: the error toast when the statement raised,
  the success toast otherwise (also when the statement touched no row).
\<close>

type_synonym toast = "string \<times> string"

definition updateTaskStatus ::
  "db \<Rightarrow> session \<Rightarrow> uuid \<Rightarrow> string \<Rightarrow> timestamptz \<Rightarrow> db \<times> toast" where
  "updateTaskStatus d sess taskId s now =
     (case update_task_status d sess taskId s (if s = ''completed'' then Some now else None) of
        Inl e \<Rightarrow> (d, (''Error'', ''Failed to update task''))
      | Inr d' \<Rightarrow> (d', (''Success'', ''Task marked as '' @ s)))"

subsection \<open>\<open>createTask\<close> of the employee dashboard\<close>

text \<open>
  The form state \<open>newTask\<close>. \<open>String.prototype.trim\<close> is modelled on the ASCII white
  space (tab, line feed, vertical tab, form feed, carriage return, space); the white
  space beyond ASCII that it also strips (U+00A0, U+FEFF, U+2028, U+2029, the space
  separators) counts as text here, so only titles blank in ASCII take the first
  branch of \<open>createTask\<close>. \<open>x || null\<close> turns the empty string into \<open>null\<close>.
\<close>

record new_task =
  nt_title :: string
  nt_description :: string
  nt_priority :: priority
  nt_points :: int
  nt_due_date :: string
  nt_assignee_id :: string

definition is_white_space :: "char \<Rightarrow> bool" where
  "is_white_space c =
     (c = CHR 0x09 \<or> c = CHR 0x0A \<or> c = CHR 0x0B \<or> c = CHR 0x0C \<or> c = CHR 0x0D \<or> c = CHR 0x20)"

definition trim :: "string \<Rightarrow> string" where
  "trim s = rev (dropWhile is_white_space (rev (dropWhile is_white_space s)))"

definition or_null :: "string \<Rightarrow> string option" where
  "or_null s = (if s = [] then None else Some s)"

text \<open>
  The statement inserts the form's fields and \<open>created_by\<close>, the \<open>user_id\<close> of the
  dashboard's profile; \<open>status\<close> and \<open>completed_at\<close> take the column defaults
  \<open>'pending'\<close> and \<open>NULL\<close>. The id is the \<open>gen_random_uuid()\<close> the insert draws.
\<close>

definition createTask :: "db \<Rightarrow> session \<Rightarrow> uuid \<Rightarrow> new_task \<Rightarrow> uuid \<Rightarrow> db \<times> toast" where
  "createTask d sess profile_user_id newTask new_id =
     (if trim (nt_title newTask) = []
      then (d, (''Error'', ''Task title is required''))
      else (case insert_task d sess new_id
                   \<lparr>title = nt_title newTask,
                    description = or_null (nt_description newTask),
                    status = Pending,
                    priority = nt_priority newTask,
                    task_points = nt_points newTask,
                    due_date = or_null (nt_due_date newTask),
                    assignee_id = or_null (nt_assignee_id newTask),
                    created_by = Some profile_user_id,
                    completed_at = None\<rparr> of
              Inl e \<Rightarrow> (d, (''Error'', ''Failed to create task''))
            | Inr d' \<Rightarrow> (d', (''Success'', ''Task created successfully''))))"

subsection \<open>\<open>uploadFiles\<close> of the file upload component\<close>

text \<open>
  A browser \<open>File\<close> as far as the component reads it: name, MIME type and size in
  bytes. The strings are compared by prefix and suffix against ASCII patterns only.
\<close>

record File =
  file_name :: string
  file_type :: string
  file_size :: nat

definition startsWith :: "string \<Rightarrow> string \<Rightarrow> bool" where
  "startsWith s p = (take (length p) s = p)"

definition endsWith :: "string \<Rightarrow> string \<Rightarrow> bool" where
  "endsWith s p = (length p \<le> length s \<and> drop (length s - length p) s = p)"

definition str_includes :: "string \<Rightarrow> char \<Rightarrow> bool" where
  "str_includes s c = (c \<in> set s)"

text \<open>\<open>s.replace('*', '')\<close>: the first occurrence of the character is removed.\<close>

fun remove_first :: "char \<Rightarrow> string \<Rightarrow> string" where
  "remove_first c [] = []"
| "remove_first c (x # xs) = (if x = c then xs else x # remove_first c xs)"

definition allowedTypes :: "string list" where
  "allowedTypes = [''image/*'', ''application/pdf'', ''text/*'', ''.doc'', ''.docx'']"

definition isAllowed :: "File \<Rightarrow> bool" where
  "isAllowed f =
     list_ex (\<lambda>type.
        if str_includes type (CHR ''*'')
        then startsWith (file_type f) (remove_first (CHR ''*'') type)
        else endsWith (file_name f) type) allowedTypes"

text \<open>\<open>name.split('.').pop()\<close>: what follows the last dot, the whole name without one.\<close>

definition file_ext :: "string \<Rightarrow> string" where
  "file_ext n = rev (takeWhile (\<lambda>c. c \<noteq> CHR ''.'') (rev n))"

record file_upload =
  filename :: string
  original_name :: string
  file_path :: string
  upload_size :: nat
  mime_type :: string
  task_id :: "uuid option"
  uploaded_by :: uuid

text \<open>
  What one pass of the loop changes: the objects of the bucket \<open>files\<close> and the rows of
  \<open>file_uploads\<close>. The storage service and the database are collaborators; whether
  each accepts its write, and the \<open>crypto.randomUUID()\<close> drawn for the name, are
  given with the file.
\<close>

record upload_state =
  blobs :: "(string \<times> File) list"
  file_uploads :: "file_upload list"

record upload_env =
  randomUUID :: string
  storage_accepts :: bool
  insert_accepts :: bool

text \<open>
  How one pass ends in the \<open>catch\<close> block: the two validation errors (\<open>'File size must
  be less than 5MB'\<close>, \<open>'File type not allowed. ...'\<close>), the storage service's
  \<open>uploadError\<close> and the database's \<open>dbError\<close>. The progress display and the toasts
  of the component are not modelled.
\<close>

datatype upload_error =
    File_too_large
  | File_type_not_allowed
  | Upload_error
  | Db_error

definition uploadFile ::
  "upload_env \<Rightarrow> string option \<Rightarrow> uuid \<Rightarrow> upload_state \<Rightarrow> File
     \<Rightarrow> upload_state \<times> (upload_error + unit)" where
  "uploadFile env taskId userId st f =
     (if file_size f > 5 * 1024 * 1024 then (st, Inl File_too_large)
      else if \<not> isAllowed f then (st, Inl File_type_not_allowed)
      else
        (let fileExt = file_ext (file_name f);
             fileName = randomUUID env @ ''.'' @ fileExt;
             filePath = ''uploads/'' @ fileName
         in if \<not> storage_accepts env then (st, Inl Upload_error)
            else
              (let st1 = st\<lparr>blobs := (filePath, f) # blobs st\<rparr>
               in if \<not> insert_accepts env then (st1, Inl Db_error)
                  else (st1\<lparr>file_uploads :=
                              \<lparr>filename = fileName,
                               original_name = file_name f,
                               file_path = filePath,
                               upload_size = file_size f,
                               mime_type = file_type f,
                               task_id = (case taskId of None \<Rightarrow> None | Some t \<Rightarrow> or_null t),
                               uploaded_by = userId\<rparr> # file_uploads st1\<rparr>,
                        Inr ()))))"

text \<open>The loop: each file in turn; a file's error is caught and the loop goes on.\<close>

fun uploadFiles ::
  "string option \<Rightarrow> uuid \<Rightarrow> upload_state \<Rightarrow> (upload_env \<times> File) list
     \<Rightarrow> upload_state \<times> (upload_error + unit) list" where
  "uploadFiles taskId userId st [] = (st, [])"
| "uploadFiles taskId userId st ((env, f) # rest) =
     (case uploadFile env taskId userId st f of
        (st1, r) \<Rightarrow>
          (case uploadFiles taskId userId st1 rest of
             (st2, rs) \<Rightarrow> (st2, r # rs)))"

section \<open>Sequences of status updates, and what is read off a database\<close>

text \<open>
  A status update is one \<open>UPDATE\<close> of \<open>tasks\<close> in its own transaction, by any session,
  with any status text and completion time. A sequence of them runs from left to right;
  an update that raises is rolled back and leaves the database as it was.
\<close>

type_synonym status_update = "session \<times> uuid \<times> string \<times> timestamptz option"

fun apply_update :: "db \<Rightarrow> status_update \<Rightarrow> db" where
  "apply_update d (sess, tid, s, c) =
     (case update_task_status d sess tid s c of Inl e \<Rightarrow> d | Inr d' \<Rightarrow> d')"

definition run_updates :: "db \<Rightarrow> status_update list \<Rightarrow> db" where
  "run_updates d ops = foldl apply_update d ops"

definition points_nonneg :: "(uuid \<rightharpoonup> profile) \<Rightarrow> bool" where
  "points_nonneg ps = (\<forall>u p. ps u = Some p \<longrightarrow> 0 \<le> points p)"

definition balance :: "db \<Rightarrow> uuid \<Rightarrow> int option" where
  "balance d u = map_option points (profiles d u)"

definition stored_status :: "db \<Rightarrow> uuid \<Rightarrow> task_status option" where
  "stored_status d tid = map_option status (tasks d tid)"

section \<open>A small database and two files\<close>

text \<open>
  An intern \<open>a\<close> with 7 points and an employee \<open>e\<close> with none; tasks assigned to the
  intern (\<open>t1\<close> in progress, \<open>t2\<close> pending) and to the employee (\<open>t3\<close> worth \<open>-3\<close>
  points, \<open>t4\<close> worth 10, \<open>t5\<close> completed earlier).
\<close>

definition intern_a :: profile where
  "intern_a =
     \<lparr>email = ''a@example.org'', full_name = None, role = Intern, department = None, points = 7\<rparr>"

definition employee_e :: profile where
  "employee_e =
     \<lparr>email = ''e@example.org'', full_name = None, role = Employee, department = None, points = 0\<rparr>"

definition task_of :: "task_status \<Rightarrow> int \<Rightarrow> uuid \<Rightarrow> task" where
  "task_of st n a =
     \<lparr>title = ''Write report'', description = None, status = st, priority = Medium,
      task_points = n, due_date = None, assignee_id = Some a, created_by = Some ''e'',
      completed_at = None\<rparr>"

definition example_db :: db where
  "example_db =
     \<lparr>profiles = [''a'' \<mapsto> intern_a, ''e'' \<mapsto> employee_e],
      tasks = [''t1'' \<mapsto> task_of In_progress 10 ''a'',
               ''t2'' \<mapsto> task_of Pending 10 ''a'',
               ''t3'' \<mapsto> task_of In_progress (- 3) ''e'',
               ''t4'' \<mapsto> task_of In_progress 10 ''e'',
               ''t5'' \<mapsto> (task_of Completed 10 ''e'')\<lparr>completed_at := Some ''2025-09-18''\<rparr>]\<rparr>"

definition example_updates :: "status_update list" where
  "example_updates =
     [(Authenticated ''e'', ''t4'', ''completed'', Some ''2025-09-19''),
      (Authenticated ''e'', ''t4'', ''overdue'', None),
      (Authenticated ''e'', ''t3'', ''overdue'', None)]"

definition pdf_file :: File where
  "pdf_file = \<lparr>file_name = ''report.pdf'', file_type = ''application/pdf'', file_size = 1000\<rparr>"

definition big_file :: File where
  "big_file = \<lparr>file_name = ''scan.png'', file_type = ''image/png'', file_size = 6 * 1024 * 1024\<rparr>"

definition example_env :: upload_env where
  "example_env = \<lparr>randomUUID = ''0b6f'', storage_accepts = True, insert_accepts = True\<rparr>"

definition empty_uploads :: upload_state where
  "empty_uploads = \<lparr>blobs = [], file_uploads = []\<rparr>"

lemmas policy_defs = admin_or_employee_def tasks_select_using_def tasks_insert_check_def
  tasks_update_using_def profiles_update_using_def

lemmas ledger_defs = calculate_user_points_def update_profile_points_def add_points_def
  subtract_points_def int4_def

lemmas example_defs = example_db_def intern_a_def employee_e_def task_of_def

lemmas view_defs = balance_def stored_status_def

section \<open>The ledger on one update\<close>

lemma status_of_text_completed: "status_of_text ''completed'' = Some Completed"
  by (simp add: status_of_text_def)

lemma trigger_same_status:
  "status NEW = status OLD \<Longrightarrow> calculate_user_points sess OLD NEW ps = Inr ps"
  by (simp add: calculate_user_points_def)

text \<open>
  The update to \<open>'completed'\<close> goes through whenever the policies of \<open>tasks\<close> let the
  session write the row and the new balance fits the column.
\<close>

lemma completion_update_succeeds:
  assumes "tasks d tid = Some t" and "status t \<noteq> Completed" and "assignee_id t = Some a"
    and "profiles d a = Some p"
    and "tasks_select_using d sess t" and "tasks_update_using d sess"
    and "- 2147483648 \<le> points p + task_points t" and "points p + task_points t \<le> 2147483647"
  shows "\<exists>d'. update_task_status d sess tid ''completed'' c = Inr d'
           \<and> map_option status (tasks d' tid) = Some Completed"
  using assms
  by (auto simp add: update_task_status_def status_of_text_completed ledger_defs Let_def
      split: sum.splits)

text \<open>
  What the credit does where the trigger's update reaches the profile row (the session
  is the assignee's own, or exempt from row-level security): with a points value that
  is not negative the balance grows by exactly that value, nothing else in \<open>profiles\<close>
  changes, and saving \<open>'completed'\<close> again succeeds and changes no balance.
\<close>

lemma completion_credit:
  assumes "tasks d tid = Some t" and "status t \<noteq> Completed" and "assignee_id t = Some a"
    and "profiles d a = Some p" and "0 \<le> task_points t"
    and "sess = Rls_exempt \<or> sess = Authenticated a"
    and "update_task_status d sess tid ''completed'' c = Inr d'"
    and "map_option status (tasks d' tid) = Some Completed"
  shows "profiles d' = (profiles d)(a \<mapsto> p\<lparr>points := points p + task_points t\<rparr>)
       \<and> (\<exists>d''. update_task_status d' sess tid ''completed'' c2 = Inr d''
              \<and> profiles d'' = profiles d')"
  using assms
  apply (simp add: update_task_status_def status_of_text_completed Let_def
      split: if_splits sum.splits)
  apply (auto simp add: ledger_defs policy_defs Let_def
      split: if_splits sum.splits option.splits)
  done

text \<open>
  Claim C1 at a concrete update. The employee \<open>e\<close> completes the intern's task \<open>t1\<close>,
  worth 10 points. The stored status changes from \<open>in_progress\<close> to \<open>completed\<close>; the
  intern's balance was 7 and is 7 afterwards, where the credit would make it 17.
\<close>

theorem completion_by_other_session_keeps_balance:
  "stored_status example_db ''t1'' = Some In_progress
   \<and> map_option task_points (tasks example_db ''t1'') = Some 10
   \<and> map_option assignee_id (tasks example_db ''t1'') = Some (Some ''a'')
   \<and> balance example_db ''a'' = Some 7
   \<and> stored_status
        (fst (updateTaskStatus example_db (Authenticated ''e'') ''t1'' ''completed'' ''now'')) ''t1''
       = Some Completed
   \<and> balance
        (fst (updateTaskStatus example_db (Authenticated ''e'') ''t1'' ''completed'' ''now'')) ''a''
       = Some 7"
  by (simp add: updateTaskStatus_def update_task_status_def status_of_text_def policy_defs
      ledger_defs example_defs view_defs Let_def)

text \<open>
  What the debit does where the trigger's update reaches the profile row: the balance
  \<open>B\<close> becomes \<open>B - min 5 B\<close>, which is \<open>GREATEST(0, B - 5)\<close> for every integer \<open>B\<close>.
\<close>

lemma overdue_debit:
  assumes "tasks d tid = Some t" and "status t \<noteq> Overdue" and "assignee_id t = Some a"
    and "profiles d a = Some p"
    and "sess = Rls_exempt \<or> sess = Authenticated a"
    and "update_task_status d sess tid ''overdue'' c = Inr d'"
    and "map_option status (tasks d' tid) = Some Overdue"
  shows "profiles d' = (profiles d)(a \<mapsto> p\<lparr>points := points p - min 5 (points p)\<rparr>)"
  using assms
  apply (simp add: update_task_status_def status_of_text_def Let_def split: if_splits sum.splits)
  apply (auto simp add: ledger_defs policy_defs Let_def
      split: if_splits sum.splits option.splits)
  done

text \<open>
  Claim C4 at a concrete update. The employee \<open>e\<close> marks the intern's task \<open>t1\<close>
  overdue. The stored status changes from \<open>in_progress\<close> to \<open>overdue\<close>; the intern's
  balance was 7 and is 7 afterwards, where the debit of \<open>min 5 7\<close> would leave 2.
\<close>

theorem overdue_by_other_session_keeps_balance:
  "stored_status example_db ''t1'' = Some In_progress
   \<and> map_option assignee_id (tasks example_db ''t1'') = Some (Some ''a'')
   \<and> balance example_db ''a'' = Some 7
   \<and> stored_status
        (fst (updateTaskStatus example_db (Authenticated ''e'') ''t1'' ''overdue'' ''now'')) ''t1''
       = Some Overdue
   \<and> balance
        (fst (updateTaskStatus example_db (Authenticated ''e'') ''t1'' ''overdue'' ''now'')) ''a''
       = Some 7"
  by (simp add: updateTaskStatus_def update_task_status_def status_of_text_def policy_defs
      ledger_defs example_defs view_defs Let_def)

text \<open>
  Claim C5. For every task and every status value \<open>s\<close>, updating the task's status to
  \<open>s\<close> when its stored status is already \<open>s\<close> changes no profile: the client's
  \<open>updateTaskStatus\<close> leaves \<open>profiles\<close> as it was, and the statement itself, with any
  completion time and in any session, succeeds with \<open>profiles\<close> unchanged.
\<close>

theorem resave_same_status_keeps_points:
  assumes "tasks d tid = Some t" and "status_of_text s = Some (status t)"
  shows "profiles (fst (updateTaskStatus d sess tid s now)) = profiles d
       \<and> (\<exists>d'. update_task_status d sess tid s c = Inr d' \<and> profiles d' = profiles d)"
  using assms
  by (simp add: updateTaskStatus_def update_task_status_def trigger_same_status Let_def)

theorem resave_same_status_keeps_points_witness:
  "stored_status example_db ''t5'' = Some Completed
   \<and> status_of_text ''completed'' = Some Completed
   \<and> profiles (fst (updateTaskStatus example_db (Authenticated ''e'') ''t5'' ''completed'' ''now''))
       = profiles example_db"
proof -
  let ?t = "(task_of Completed 10 ''e'')\<lparr>completed_at := Some ''2025-09-18''\<rparr>"
  have t: "tasks example_db ''t5'' = Some ?t"
    by (simp add: example_defs)
  have s: "status_of_text ''completed'' = Some (status ?t)"
    by (simp add: status_of_text_def task_of_def)
  from resave_same_status_keeps_points [OF t s] show ?thesis
    by (simp add: view_defs t status_of_text_def task_of_def)
qed

section \<open>Balances never go below zero\<close>

lemma add_points_nonneg:
  "0 < n \<Longrightarrow> 0 \<le> pts \<Longrightarrow> add_points n pts = Inr v \<Longrightarrow> 0 \<le> v"
  by (auto simp add: add_points_def int4_def split: if_splits)

lemma subtract_points_nonneg: "subtract_points n pts = Inr v \<Longrightarrow> 0 \<le> v"
  by (auto simp add: subtract_points_def int4_def split: if_splits)

lemma update_profile_points_nonneg:
  assumes "points_nonneg ps" and "update_profile_points sess target expr ps = Inr ps'"
    and "\<And>pts v. 0 \<le> pts \<Longrightarrow> expr pts = Inr v \<Longrightarrow> 0 \<le> v"
  shows "points_nonneg ps'"
  using assms
  apply (auto simp add: update_profile_points_def points_nonneg_def
      split: option.splits if_splits sum.splits)
  apply blast
  done

lemma trigger_nonneg:
  assumes "points_nonneg ps" and "calculate_user_points sess OLD NEW ps = Inr ps'"
  shows "points_nonneg ps'"
proof -
  let ?add = "if status NEW = Completed \<and> status OLD \<noteq> Completed then task_points NEW else 0"
  let ?sub = "if status NEW = Overdue \<and> status OLD \<noteq> Overdue then 5 else (0::int)"
  obtain ps1 where
    s1: "(if ?add > 0 then update_profile_points sess (assignee_id NEW) (add_points ?add) ps
          else Inr ps) = Inr ps1"
    and s2: "(if ?sub > 0
          then update_profile_points sess (assignee_id NEW) (subtract_points ?sub) ps1
          else Inr ps1) = Inr ps'"
    using assms(2) by (auto simp add: calculate_user_points_def Let_def split: sum.splits)
  have mid: "points_nonneg ps1"
  proof (cases "?add > 0")
    case True
    with s1 have "update_profile_points sess (assignee_id NEW) (add_points ?add) ps = Inr ps1"
      by simp
    from update_profile_points_nonneg [OF assms(1) this] True show ?thesis
      using add_points_nonneg by blast
  next
    case False
    with s1 assms(1) show ?thesis by simp
  qed
  show ?thesis
  proof (cases "?sub > 0")
    case True
    with s2 have
      "update_profile_points sess (assignee_id NEW) (subtract_points ?sub) ps1 = Inr ps'"
      by simp
    from update_profile_points_nonneg [OF mid this] show ?thesis
      using subtract_points_nonneg by blast
  next
    case False
    with s2 mid show ?thesis by simp
  qed
qed

lemma update_task_status_nonneg:
  assumes "points_nonneg (profiles d)" and "update_task_status d sess tid s c = Inr d'"
  shows "points_nonneg (profiles d')"
  using assms
  by (auto simp add: update_task_status_def Let_def dest: trigger_nonneg
      split: option.splits if_splits sum.splits)

lemma apply_update_nonneg:
  "points_nonneg (profiles d) \<Longrightarrow> points_nonneg (profiles (apply_update d x))"
  by (cases x) (auto dest: update_task_status_nonneg split: sum.splits)

lemma run_updates_nonneg:
  "points_nonneg (profiles d) \<Longrightarrow> points_nonneg (profiles (run_updates d ops))"
  unfolding run_updates_def
  by (induction ops arbitrary: d) (simp_all add: apply_update_nonneg)

text \<open>
  Claim C3. Starting from profiles whose balances are all at least zero (a new profile
  has the column default 0), after every prefix of every sequence of task status
  updates, by whatever sessions, every profile's balance is at least zero.
\<close>

theorem points_never_negative:
  assumes "\<forall>u p. profiles d u = Some p \<longrightarrow> 0 \<le> points p"
  shows "\<forall>n u p. profiles (run_updates d (take n ops)) u = Some p \<longrightarrow> 0 \<le> points p"
  using assms run_updates_nonneg [of d] unfolding points_nonneg_def by blast

theorem points_never_negative_witness:
  "balance example_db ''a'' = Some 7 \<and> balance example_db ''e'' = Some 0
   \<and> (\<exists>p. profiles (run_updates example_db (take 3 example_updates)) ''e'' = Some p
          \<and> 0 \<le> points p)"
proof -
  have init: "\<forall>u p. profiles example_db u = Some p \<longrightarrow> 0 \<le> points p"
    by (auto simp add: example_defs split: if_splits)
  have "\<exists>p. profiles (run_updates example_db (take 3 example_updates)) ''e'' = Some p"
    by (simp add: run_updates_def example_updates_def update_task_status_def status_of_text_def
        policy_defs ledger_defs example_defs Let_def)
  with points_never_negative [OF init, of example_updates] show ?thesis
    by (auto simp add: view_defs example_defs)
qed

section \<open>Who may write tasks\<close>

text \<open>
  An intern's \<open>UPDATE\<close> of \<open>tasks\<close> touches no row, whatever the task and the status:
  the \<open>UPDATE\<close> policy admits employees and admins only. The statement raises nothing,
  so the client shows its success toast.
\<close>

lemma intern_update_skipped:
  assumes "profiles d u = Some p" and "role p = Intern"
  shows "updateTaskStatus d (Authenticated u) taskId s now
           = (d, (''Success'', ''Task marked as '' @ s))"
  using assms
  by (auto simp add: updateTaskStatus_def update_task_status_def policy_defs
      split: option.splits)

text \<open>
  Claim C2 at a concrete request. The intern \<open>a\<close> presses Start on the own pending task
  \<open>t2\<close>: \<open>updateTaskStatus\<close> returns the database it was given, in which \<open>t2\<close> is
  still pending, together with the success toast.
\<close>

theorem intern_start_task_not_stored:
  "map_option role (profiles example_db ''a'') = Some Intern
   \<and> map_option assignee_id (tasks example_db ''t2'') = Some (Some ''a'')
   \<and> stored_status example_db ''t2'' = Some Pending
   \<and> updateTaskStatus example_db (Authenticated ''a'') ''t2'' ''in_progress'' ''now''
       = (example_db, (''Success'', ''Task marked as in_progress''))"
  by (simp add: updateTaskStatus_def update_task_status_def status_of_text_def policy_defs
      example_defs view_defs Let_def)

text \<open>
  Claim C7. For an actor with a profile: when the role is intern, the insert into
  \<open>tasks\<close> is rejected with the row-level security violation (SQLSTATE 42501, which the
  data API answers with 403 Forbidden), whatever the row, and \<open>createTask\<close> leaves the
  database as it was and shows an error toast; and an insert that succeeds was made by
  an employee or an admin.
\<close>

theorem intern_cannot_create_task:
  assumes "profiles d u = Some p"
  shows "(role p = Intern \<longrightarrow>
            insert_task d (Authenticated u) new_id row = Inl Rls_violation
          \<and> createTask d (Authenticated u) creator newTask new_id
              = (d, (''Error'', if trim (nt_title newTask) = [] then ''Task title is required''
                                else ''Failed to create task'')))
       \<and> ((\<exists>d'. insert_task d (Authenticated u) new_id row = Inr d')
            \<longrightarrow> role p = Employee \<or> role p = Admin)"
  using assms
  by (auto simp add: insert_task_def createTask_def policy_defs split: if_splits)

theorem intern_cannot_create_task_witness:
  "profiles example_db ''a'' = Some intern_a \<and> role intern_a = Intern
   \<and> insert_task example_db (Authenticated ''a'') ''t9'' (task_of Pending 10 ''a'')
       = Inl Rls_violation
   \<and> profiles example_db ''e'' = Some employee_e \<and> role employee_e = Employee
   \<and> isl (insert_task example_db (Authenticated ''e'') ''t9'' (task_of Pending 10 ''a'')) = False"
proof -
  have a: "profiles example_db ''a'' = Some intern_a"
    and e: "profiles example_db ''e'' = Some employee_e"
    by (simp_all add: example_db_def)
  have r: "role intern_a = Intern" by (simp add: intern_a_def)
  have ok: "isl (insert_task example_db (Authenticated ''e'') ''t9'' (task_of Pending 10 ''a''))
      = False"
    by (simp add: insert_task_def references_profile_def policy_defs example_defs)
  from intern_cannot_create_task [OF a, of "''t9''" "task_of Pending 10 ''a''"] r
  have "insert_task example_db (Authenticated ''a'') ''t9'' (task_of Pending 10 ''a'')
      = Inl Rls_violation"
    by blast
  with a e r ok show ?thesis by (simp add: employee_e_def)
qed

section \<open>Completion time\<close>

lemma updateTaskStatus_keeps_completed_at_iff:
  assumes "\<forall>i t. tasks d i = Some t \<longrightarrow> (completed_at t \<noteq> None) = (status t = Completed)"
  shows "\<forall>i t. tasks (fst (updateTaskStatus d sess tid s now)) i = Some t
           \<longrightarrow> (completed_at t \<noteq> None) = (status t = Completed)"
  using assms
  by (auto simp add: updateTaskStatus_def update_task_status_def status_of_text_def Let_def
      split: option.splits if_splits sum.splits)

lemma updateTaskStatus_written_row:
  assumes "tasks d tid = Some t" and "tasks_select_using d sess t" and "tasks_update_using d sess"
    and "updateTaskStatus d sess tid s now = (d', (''Success'', msg))"
  shows "\<exists>t'. tasks d' tid = Some t' \<and> status_of_text s = Some (status t')
           \<and> (completed_at t' \<noteq> None) = (status t' = Completed)"
  using assms
  by (auto simp add: updateTaskStatus_def update_task_status_def status_of_text_def Let_def
      split: option.splits if_splits sum.splits)

text \<open>A task made by \<open>createTask\<close> is pending with no completion time.\<close>

lemma createTask_keeps_completed_at_iff:
  assumes "\<forall>i t. tasks d i = Some t \<longrightarrow> (completed_at t \<noteq> None) = (status t = Completed)"
  shows "\<forall>i t. tasks (fst (createTask d sess u newTask new_id)) i = Some t
           \<longrightarrow> (completed_at t \<noteq> None) = (status t = Completed)"
  using assms
  by (auto simp add: createTask_def insert_task_def split: if_splits)

text \<open>
  Claim C6. After \<open>updateTaskStatus\<close> returns: if every task had a completion time
  exactly when its status was completed, every task still has; and when the update
  reached the row (the task exists, the policies admit the session, the statement did
  not raise), the row carries the requested status and has a completion time exactly
  when that status is completed, whatever it held before.
\<close>

theorem completed_at_iff_completed:
  assumes "updateTaskStatus d sess tid s now = (d', tst)"
  shows "((\<forall>i t. tasks d i = Some t \<longrightarrow> (completed_at t \<noteq> None) = (status t = Completed))
          \<longrightarrow> (\<forall>i t. tasks d' i = Some t
                 \<longrightarrow> (completed_at t \<noteq> None) = (status t = Completed)))
       \<and> ((\<exists>t. tasks d tid = Some t \<and> tasks_select_using d sess t)
            \<and> tasks_update_using d sess \<and> fst tst = ''Success''
          \<longrightarrow> (\<exists>t'. tasks d' tid = Some t' \<and> status_of_text s = Some (status t')
                 \<and> (completed_at t' \<noteq> None) = (status t' = Completed)))"
proof (intro conjI impI)
  assume "\<forall>i t. tasks d i = Some t \<longrightarrow> (completed_at t \<noteq> None) = (status t = Completed)"
  from updateTaskStatus_keeps_completed_at_iff [OF this, of sess tid s now] assms
  show "\<forall>i t. tasks d' i = Some t \<longrightarrow> (completed_at t \<noteq> None) = (status t = Completed)"
    by simp
next
  assume a: "(\<exists>t. tasks d tid = Some t \<and> tasks_select_using d sess t)
      \<and> tasks_update_using d sess \<and> fst tst = ''Success''"
  then obtain t where t: "tasks d tid = Some t" "tasks_select_using d sess t" by blast
  from a assms have run: "updateTaskStatus d sess tid s now = (d', (''Success'', snd tst))"
    by (cases tst) simp
  from a updateTaskStatus_written_row [OF t _ run]
  show "\<exists>t'. tasks d' tid = Some t' \<and> status_of_text s = Some (status t')
          \<and> (completed_at t' \<noteq> None) = (status t' = Completed)"
    by blast
qed

theorem completed_at_iff_completed_witness:
  "\<exists>t. tasks (fst (updateTaskStatus example_db (Authenticated ''e'') ''t1'' ''completed'' ''now''))
          ''t1'' = Some t
      \<and> status t = Completed \<and> completed_at t = Some ''now''
      \<and> (completed_at t \<noteq> None) = (status t = Completed)"
proof -
  let ?r = "updateTaskStatus example_db (Authenticated ''e'') ''t1'' ''completed'' ''now''"
  have run: "?r = (fst ?r, snd ?r)" by simp
  have written: "\<exists>t. tasks example_db ''t1'' = Some t
      \<and> tasks_select_using example_db (Authenticated ''e'') t"
    and pol: "tasks_update_using example_db (Authenticated ''e'')"
    by (simp_all add: policy_defs example_defs)
  have ok: "fst (snd ?r) = ''Success''"
    by (simp add: updateTaskStatus_def update_task_status_def status_of_text_def policy_defs
        ledger_defs example_defs Let_def)
  have ev: "\<exists>t. tasks (fst ?r) ''t1'' = Some t \<and> status t = Completed
      \<and> completed_at t = Some ''now''"
    by (simp add: updateTaskStatus_def update_task_status_def status_of_text_def policy_defs
        ledger_defs example_defs Let_def)
  from completed_at_iff_completed [OF run] written pol ok
  have "\<exists>t'. tasks (fst ?r) ''t1'' = Some t' \<and> status_of_text ''completed'' = Some (status t')
          \<and> (completed_at t' \<noteq> None) = (status t' = Completed)"
    by blast
  with ev show ?thesis by auto
qed

section \<open>Creating tasks and the ledger\<close>

lemma createTask_keeps_points: "profiles (fst (createTask d sess u newTask new_id)) = profiles d"
  by (auto simp add: createTask_def insert_task_def split: if_splits)

text \<open>
  Claim C10. An insert into \<open>tasks\<close> that succeeds leaves \<open>profiles\<close> exactly as it
  was, for every row, also one with status completed and an assignee (an insert that is
  rejected changes nothing at all).
\<close>

theorem insert_task_keeps_points:
  assumes "insert_task d sess new_id row = Inr d'"
  shows "profiles d' = profiles d"
  using assms by (auto simp add: insert_task_def split: if_splits)

theorem insert_task_keeps_points_witness:
  "balance example_db ''a'' = Some 7
   \<and> (\<exists>d'. insert_task example_db (Authenticated ''e'') ''t9'' (task_of Completed 10 ''a'') = Inr d'
         \<and> stored_status d' ''t9'' = Some Completed \<and> balance d' ''a'' = Some 7)"
proof -
  let ?d' = "example_db\<lparr>tasks := (tasks example_db)(''t9'' \<mapsto> task_of Completed 10 ''a'')\<rparr>"
  have run: "insert_task example_db (Authenticated ''e'') ''t9'' (task_of Completed 10 ''a'')
      = Inr ?d'"
    by (simp add: insert_task_def references_profile_def policy_defs example_defs)
  have b: "balance example_db ''a'' = Some 7" by (simp add: view_defs example_defs)
  from insert_task_keeps_points [OF run] b have "balance ?d' ''a'' = Some 7"
    by (simp add: balance_def)
  moreover have "stored_status ?d' ''t9'' = Some Completed"
    by (simp add: view_defs task_of_def)
  ultimately show ?thesis using run b by blast
qed

section \<open>Upload validation\<close>

text \<open>
  What \<open>isAllowed\<close> computes. The entries with a star are compared with the MIME type;
  the other three, \<open>'application/pdf'\<close> among them, with the end of the file name.
\<close>

lemma isAllowed_unfolded:
  "isAllowed f \<longleftrightarrow>
     startsWith (file_type f) ''image/'' \<or> endsWith (file_name f) ''application/pdf''
   \<or> startsWith (file_type f) ''text/'' \<or> endsWith (file_name f) ''.doc''
   \<or> endsWith (file_name f) ''.docx''"
  by (simp add: isAllowed_def allowedTypes_def str_includes_def)

text \<open>
  Claim C8 at a concrete file. \<open>report.pdf\<close> of type \<open>application/pdf\<close> and 1000
  bytes is on the allow-list by MIME type and by extension; the validation refuses it
  and the upload ends with the type error, nothing written.
\<close>

theorem pdf_upload_rejected:
  "isAllowed pdf_file = False
   \<and> file_size pdf_file \<le> 5 * 1024 * 1024
   \<and> uploadFile example_env None ''a'' empty_uploads pdf_file
       = (empty_uploads, Inl File_type_not_allowed)"
  by (simp add: uploadFile_def isAllowed_unfolded pdf_file_def startsWith_def endsWith_def)

text \<open>
  Claim C9. A file larger than \<open>5 * 1024 * 1024\<close> bytes is refused with the size
  error, and the bucket and \<open>file_uploads\<close> are as before: no object was written and no
  row inserted.
\<close>

theorem oversized_upload_rejected:
  assumes "5 * 1024 * 1024 < file_size f"
  shows "uploadFile env taskId userId st f = (st, Inl File_too_large)"
  using assms by (simp add: uploadFile_def)

theorem oversized_upload_rejected_witness:
  "5 * 1024 * 1024 < file_size big_file
   \<and> uploadFile example_env None ''a'' empty_uploads big_file
       = (empty_uploads, Inl File_too_large)"
proof -
  have big: "5 * 1024 * 1024 < file_size big_file" by (simp add: big_file_def)
  from oversized_upload_rejected [OF big] big show ?thesis by simp
qed

text \<open>In the loop the refused file is passed over and the remaining files are tried.\<close>

lemma uploadFiles_skips_oversized:
  assumes "5 * 1024 * 1024 < file_size f"
  shows "uploadFiles taskId userId st ((env, f) # rest)
           = (fst (uploadFiles taskId userId st rest),
              Inl File_too_large # snd (uploadFiles taskId userId st rest))"
  using assms by (simp add: uploadFile_def split: prod.splits)

end
